theory Spec2Isabelle
  imports Main "HOL-Library.Sublist"
begin

section \<open>EnvUtil: memoised environment predicates\<close>

text \<open>
  The Java class \<open>EnvUtil\<close> keeps three private static caches of type \<open>Boolean\<close>
  (\<open>null\<close> until the first call). Each predicate inspects the class names of the
  current stack trace, \<open>new Throwable().getStackTrace()\<close>. The runtime environment
  of a call is therefore the list of class names of the caller's frames; the frame of
  the \<open>EnvUtil\<close> method itself is on top of it. The model is single threaded.
\<close>

record EnvUtil =
  cache_isJUnitTest :: "bool option"
  cache_isDevMode :: "bool option"
  cache_isProdMode :: "bool option"

definition EnvUtil_init :: EnvUtil where
  "EnvUtil_init = \<lparr>cache_isJUnitTest = None, cache_isDevMode = None, cache_isProdMode = None\<rparr>"

definition EnvUtil_class :: string where
  "EnvUtil_class = ''org.jboss.errai.common.rebind.EnvUtil''"

definition startsWith :: "string \<Rightarrow> string \<Rightarrow> bool" where
  "startsWith s p = prefix p s"

definition getStackTrace :: "string list \<Rightarrow> string list" where
  "getStackTrace callers = EnvUtil_class # callers"

fun isJUnitTest_loop :: "string list \<Rightarrow> bool" where
  "isJUnitTest_loop [] = False"
| "isJUnitTest_loop (el # els) =
     (if startsWith el ''com.google.gwt.junit.client.'' \<or> startsWith el ''org.junit''
      then True else isJUnitTest_loop els)"

definition isJUnitTest :: "string list \<Rightarrow> EnvUtil \<Rightarrow> bool \<times> EnvUtil" where
  "isJUnitTest callers s =
     (case cache_isJUnitTest s of
        Some b \<Rightarrow> (b, s)
      | None \<Rightarrow>
          (let b = isJUnitTest_loop (getStackTrace callers)
           in (b, s\<lparr>cache_isJUnitTest := Some b\<rparr>)))"

fun isDevMode_loop :: "string list \<Rightarrow> bool" where
  "isDevMode_loop [] = False"
| "isDevMode_loop (el # els) =
     (if startsWith el ''com.google.gwt.dev.shell.OophmSessionHandler''
      then True else isDevMode_loop els)"

definition isDevMode :: "string list \<Rightarrow> EnvUtil \<Rightarrow> bool \<times> EnvUtil" where
  "isDevMode callers s =
     (case cache_isDevMode s of
        Some b \<Rightarrow> (b, s)
      | None \<Rightarrow>
          (let b = isDevMode_loop (getStackTrace callers)
           in (b, s\<lparr>cache_isDevMode := Some b\<rparr>)))"

text \<open>
  \<open>!isDevMode() && !isJUnitTest()\<close>: Java's \<open>&&\<close> does not evaluate its right
  operand when the left one is false, so \<open>isJUnitTest\<close> is not called (and its cache
  stays as it is) when \<open>isDevMode\<close> returns true.
\<close>

definition isProdMode :: "string list \<Rightarrow> EnvUtil \<Rightarrow> bool \<times> EnvUtil" where
  "isProdMode callers s =
     (case cache_isProdMode s of
        Some b \<Rightarrow> (b, s)
      | None \<Rightarrow>
          (case isDevMode (getStackTrace callers) s of
             (d, s1) \<Rightarrow>
               if d then (False, s1\<lparr>cache_isProdMode := Some False\<rparr>)
               else (case isJUnitTest (getStackTrace callers) s1 of
                       (j, s2) \<Rightarrow> (\<not> j, s2\<lparr>cache_isProdMode := Some (\<not> j)\<rparr>))))"

definition recordEnvironmentState :: "string list \<Rightarrow> EnvUtil \<Rightarrow> EnvUtil" where
  "recordEnvironmentState callers s =
     snd (isProdMode (getStackTrace callers)
       (snd (isDevMode (getStackTrace callers)
         (snd (isJUnitTest (getStackTrace callers) s)))))"

text \<open>A call of one of the four public methods, made from the given stack of callers.\<close>

datatype EnvUtil_call =
    Call_isJUnitTest "string list"
  | Call_isDevMode "string list"
  | Call_isProdMode "string list"
  | Call_recordEnvironmentState "string list"

fun EnvUtil_exec :: "EnvUtil_call \<Rightarrow> EnvUtil \<Rightarrow> EnvUtil" where
  "EnvUtil_exec (Call_isJUnitTest k) s = snd (isJUnitTest k s)"
| "EnvUtil_exec (Call_isDevMode k) s = snd (isDevMode k s)"
| "EnvUtil_exec (Call_isProdMode k) s = snd (isProdMode k s)"
| "EnvUtil_exec (Call_recordEnvironmentState k) s = recordEnvironmentState k s"

fun EnvUtil_run :: "EnvUtil_call list \<Rightarrow> EnvUtil \<Rightarrow> EnvUtil" where
  "EnvUtil_run [] s = s"
| "EnvUtil_run (c # cs) s = EnvUtil_run cs (EnvUtil_exec c s)"

text \<open>
  The caches are private and written only by the three predicates, so the states the
  class can be in are those reached from the initial one by calls. In all of them the
  production-mode cache, once set, agrees with the other two.
\<close>

definition EnvUtil_consistent :: "EnvUtil \<Rightarrow> bool" where
  "EnvUtil_consistent s =
     (case cache_isProdMode s of
        None \<Rightarrow> True
      | Some p \<Rightarrow>
          (case cache_isDevMode s of
             None \<Rightarrow> False
           | Some d \<Rightarrow>
               if d then \<not> p
               else (case cache_isJUnitTest s of None \<Rightarrow> False | Some j \<Rightarrow> p = (\<not> j))))"

section \<open>The editor lifecycle adapters\<close>

subsection \<open>Values exchanged with the host channel\<close>

text \<open>
  \<open>MonacoEditorOperation\<close> tells the adapter what kind of change the widget reports;
  \<open>StateControlCommand\<close> is what the adapter signals to the host. The host callbacks
  of \<open>Props\<close> (\<open>onReady\<close>, \<open>onNewEdit(new KogitoEdit(content))\<close>,
  \<open>onStateControlCommandUpdate(command)\<close>) are recorded as the list of messages a
  call emits, in order.
\<close>

datatype MonacoEditorOperation = Op_EDIT | Op_UNDO | Op_REDO

datatype StateControlCommand = Cmd_UNDO | Cmd_REDO

text \<open>
  Modelled from the spec: \<open>EditorTheme\<close> is declared outside the sources; the spec
  names a light and a dark theme.
\<close>

datatype EditorTheme = LIGHT | DARK

datatype channel_msg =
    OnReady
  | OnNewEdit string
  | OnStateControlCommandUpdate StateControlCommand

text \<open>
  A call fails either by throwing (JavaScript's \<open>TypeError\<close> on reading a property
  of \<open>null\<close>) or by returning \<open>Promise.reject()\<close>.
\<close>

datatype error = TypeError | PromiseRejected

definition bind_err :: "error + 'a \<Rightarrow> ('a \<Rightarrow> error + 'b) \<Rightarrow> error + 'b" where
  "bind_err r f = (case r of Inl e \<Rightarrow> Inl e | Inr x \<Rightarrow> f x)"

definition emitted :: "error + (channel_msg list \<times> 'a) \<Rightarrow> channel_msg list" where
  "emitted r = (case r of Inl e \<Rightarrow> [] | Inr (msgs, s) \<Rightarrow> msgs)"

text \<open>The state a call leaves: the one it returns, or the old one when the call fails.\<close>

definition state_after :: "error + (channel_msg list \<times> 'a) \<Rightarrow> 'a \<Rightarrow> 'a" where
  "state_after r s = (case r of Inl e \<Rightarrow> s | Inr (msgs, s') \<Rightarrow> s')"


fun isStateControl :: "channel_msg \<Rightarrow> bool" where
  "isStateControl (OnStateControlCommandUpdate c) = True"
| "isStateControl m = False"

text \<open>\<open>x || ""\<close> on a string: the empty string is falsy.\<close>

definition or_empty :: "string \<Rightarrow> string" where
  "or_empty x = (if x = [] then [] else x)"

text \<open>\<open>String.prototype.replaceAll\<close> with a string pattern.\<close>

function replaceAll :: "string \<Rightarrow> string \<Rightarrow> string \<Rightarrow> string" where
  "replaceAll pat rep s =
     (if pat = [] then rep @ concat (map (\<lambda>c. c # rep) s)
      else if s = [] then []
      else if prefix pat s then rep @ replaceAll pat rep (drop (length pat) s)
      else hd s # replaceAll pat rep (tl s))"
  by pat_completeness auto
termination
  by (relation "measure (\<lambda>(pat, rep, s). length s)") auto

declare replaceAll.simps [simp del]

subsection \<open>The Monaco text widget\<close>

text \<open>
  Modelled from the spec: the widgets \<open>SwfMonacoEditor\<close> and
  \<open>DashbuilderMonacoEditor\<close> (and their \<open>...MonacoEditorApi\<close>) are not among the
  sources. The spec gives the widget a text buffer that \<open>getContent\<close> returns, a
  native undo/redo history on which \<open>undo\<close> and \<open>redo\<close> do nothing when it is
  empty, and a light or dark theme that \<open>setTheme\<close> applies. The adapter passes the
  widget its \<open>content\<close> and \<open>fileName\<close> props; the content is pushed into the buffer.
  A widget operation that changes the buffer reports it through the
  \<open>onContentChange(newContent, operation)\<close> callback, returned here as an optional pair.
\<close>

record monaco_widget =
  w_buffer :: string
  w_fileName :: string
  w_undoStack :: "string list"
  w_redoStack :: "string list"
  w_theme :: "EditorTheme option"

text \<open>Modelled from the spec: the widget is rendered with the props \<open>content\<close> and
  \<open>fileName\<close>; a widget already mounted keeps its history and theme.\<close>

definition widget_render :: "string \<Rightarrow> string \<Rightarrow> monaco_widget option \<Rightarrow> monaco_widget" where
  "widget_render content fileName old =
     (case old of
        None \<Rightarrow> \<lparr>w_buffer = content, w_fileName = fileName, w_undoStack = [],
                 w_redoStack = [], w_theme = None\<rparr>
      | Some w \<Rightarrow> w\<lparr>w_buffer := content, w_fileName := fileName\<rparr>)"

text \<open>Modelled from the spec: \<open>getContent\<close> of the widget returns the current buffer.\<close>

definition widget_getContent :: "monaco_widget \<Rightarrow> string" where
  "widget_getContent w = w_buffer w"

text \<open>Modelled from the spec: the user replaces the text; the widget records the old buffer
  in its history and reports an \<open>EDIT\<close>.\<close>

definition widget_type ::
  "string \<Rightarrow> monaco_widget \<Rightarrow> monaco_widget \<times> (string \<times> MonacoEditorOperation)" where
  "widget_type text w =
     (w\<lparr>w_undoStack := w_buffer w # w_undoStack w, w_redoStack := [], w_buffer := text\<rparr>,
      (text, Op_EDIT))"

text \<open>Modelled from the spec: \<open>undo\<close> of the widget, on its native history; nothing is
  changed and nothing reported when the history is empty.\<close>

definition widget_undo ::
  "monaco_widget \<Rightarrow> monaco_widget \<times> (string \<times> MonacoEditorOperation) option" where
  "widget_undo w =
     (case w_undoStack w of
        [] \<Rightarrow> (w, None)
      | b # bs \<Rightarrow>
          (w\<lparr>w_buffer := b, w_undoStack := bs, w_redoStack := w_buffer w # w_redoStack w\<rparr>,
           Some (b, Op_UNDO)))"

text \<open>Modelled from the spec: \<open>redo\<close> of the widget, the mirror image of \<open>undo\<close>.\<close>

definition widget_redo ::
  "monaco_widget \<Rightarrow> monaco_widget \<times> (string \<times> MonacoEditorOperation) option" where
  "widget_redo w =
     (case w_redoStack w of
        [] \<Rightarrow> (w, None)
      | b # bs \<Rightarrow>
          (w\<lparr>w_buffer := b, w_redoStack := bs, w_undoStack := w_buffer w # w_undoStack w\<rparr>,
           Some (b, Op_REDO)))"

text \<open>Modelled from the spec: \<open>setTheme\<close> of the widget applies the theme.\<close>

definition widget_setTheme :: "EditorTheme \<Rightarrow> monaco_widget \<Rightarrow> monaco_widget" where
  "widget_setTheme theme w = w\<lparr>w_theme := Some theme\<rparr>"

text \<open>
  Modelled from the spec: an undo (a redo) is applied only by a mounted widget whose
  history is not empty; otherwise the operation is a no-op.
\<close>

definition widget_canUndo :: "monaco_widget option \<Rightarrow> bool" where
  "widget_canUndo r = (case r of None \<Rightarrow> False | Some w \<Rightarrow> w_undoStack w \<noteq> [])"

definition widget_canRedo :: "monaco_widget option \<Rightarrow> bool" where
  "widget_canRedo r = (case r of None \<Rightarrow> False | Some w \<Rightarrow> w_redoStack w \<noteq> [])"

subsection \<open>ServerlessWorkflowEditor\<close>

text \<open>
  The state of \<open>RefForwardingServerlessWorkflowEditor\<close>: its two \<open>useState\<close> cells
  and its two refs. A ref is \<open>None\<close> while its \<open>current\<close> is \<open>null\<close>;
  \<open>swf_svgContainer\<close> holds the \<open>innerHTML\<close> of the element the ref is attached to.
\<close>

record initial_content =
  originalContent :: string
  path :: string

record swf_editor =
  swf_initialContent :: initial_content
  swf_diagramOutOfSync :: bool
  swf_svgContainer :: "string option"
  swf_swfMonacoEditorRef :: "monaco_widget option"

text \<open>
  The workflow parser and the diagram renderer are libraries outside the sources, taken
  as parameters. \<open>mermaidSourceCode content\<close> is the value of
  \<open>workflow.states ? new MermaidDiagram(workflow).sourceCode() : ""\<close> for
  \<open>workflow = Specification.Workflow.fromSource(content)\<close>, or \<open>None\<close> when that
  throws (the content does not parse). \<open>mermaidInit src\<close> is the markup that
  \<open>mermaid.init\<close> and \<open>svgPanZoom\<close> leave in the container, or \<open>None\<close> when
  they throw.
\<close>

record preview_engine =
  mermaidSourceCode :: "string \<Rightarrow> string option"
  mermaidInit :: "string \<Rightarrow> string option"

definition swf_useState :: swf_editor where
  "swf_useState =
     \<lparr>swf_initialContent = \<lparr>originalContent = [], path = []\<rparr>,
      swf_diagramOutOfSync = False,
      swf_svgContainer = None,
      swf_swfMonacoEditorRef = None\<rparr>"

text \<open>
  \<open>setContent\<close> calls the state setter \<open>setInitialContent\<close> inside a \<open>try\<close>.
  The setter only schedules a render and does not throw, so the \<open>catch\<close> branch
  (\<open>Promise.reject()\<close>, the error \<open>PromiseRejected\<close>) is never taken.
\<close>

definition swf_setContent :: "string \<Rightarrow> string \<Rightarrow> swf_editor \<Rightarrow> error + swf_editor" where
  "swf_setContent p newContent s =
     Inr (s\<lparr>swf_initialContent := \<lparr>originalContent = newContent, path = p\<rparr>\<rparr>)"

definition swf_getContent :: "swf_editor \<Rightarrow> error + string" where
  "swf_getContent s =
     Inr (case swf_swfMonacoEditorRef s of
            None \<Rightarrow> []
          | Some w \<Rightarrow> or_empty (widget_getContent w))"

definition swf_getPreview :: "swf_editor \<Rightarrow> error + string" where
  "swf_getPreview s =
     (case swf_svgContainer s of
        None \<Rightarrow> Inl TypeError
      | Some innerHTML \<Rightarrow> Inr (replaceAll ''<br>'' ''<br/>'' innerHTML))"

text \<open>The \<open>try\<close> block of \<open>onContentChanged\<close> and its \<open>catch\<close>.\<close>

definition swf_updateDiagram :: "preview_engine \<Rightarrow> string \<Rightarrow> swf_editor \<Rightarrow> swf_editor" where
  "swf_updateDiagram eng newContent s =
     (case mermaidSourceCode eng newContent of
        None \<Rightarrow> s\<lparr>swf_diagramOutOfSync := True\<rparr>
      | Some src \<Rightarrow>
          if length src > 0 then
            (case swf_svgContainer s of
               None \<Rightarrow> s\<lparr>swf_diagramOutOfSync := True\<rparr>
             | Some old \<Rightarrow>
                 (case mermaidInit eng src of
                    None \<Rightarrow> s\<lparr>swf_svgContainer := Some src, swf_diagramOutOfSync := True\<rparr>
                  | Some svg \<Rightarrow>
                      s\<lparr>swf_svgContainer := Some svg, swf_diagramOutOfSync := False\<rparr>))
          else
            (case swf_svgContainer s of
               None \<Rightarrow> s\<lparr>swf_diagramOutOfSync := True\<rparr>
             | Some old \<Rightarrow>
                 s\<lparr>swf_svgContainer := Some ''Create a workflow to see its preview here.'',
                   swf_diagramOutOfSync := True\<rparr>))"

definition swf_onContentChanged ::
  "preview_engine \<Rightarrow> string \<Rightarrow> MonacoEditorOperation option \<Rightarrow> swf_editor
     \<Rightarrow> channel_msg list \<times> swf_editor" where
  "swf_onContentChanged eng newContent operation s =
     ((if operation = Some Op_EDIT then [OnNewEdit newContent]
       else if operation = Some Op_UNDO then [OnStateControlCommandUpdate Cmd_UNDO]
       else if operation = Some Op_REDO then [OnStateControlCommandUpdate Cmd_REDO]
       else []),
      swf_updateDiagram eng newContent s)"

text \<open>
  \<open>undo\<close>, \<open>redo\<close> and \<open>setTheme\<close> call the widget through \<open>?.\<close>, so they do
  nothing while the ref is \<open>null\<close>. A change the widget applies comes back through
  \<open>onContentChange\<close>.
\<close>

definition swf_undo :: "preview_engine \<Rightarrow> swf_editor \<Rightarrow> error + (channel_msg list \<times> swf_editor)" where
  "swf_undo eng s =
     (case swf_swfMonacoEditorRef s of
        None \<Rightarrow> Inr ([], s)
      | Some w \<Rightarrow>
          (case widget_undo w of
             (w', None) \<Rightarrow> Inr ([], s\<lparr>swf_swfMonacoEditorRef := Some w'\<rparr>)
           | (w', Some (c, operation)) \<Rightarrow>
               Inr (swf_onContentChanged eng c (Some operation)
                      (s\<lparr>swf_swfMonacoEditorRef := Some w'\<rparr>))))"

definition swf_redo :: "preview_engine \<Rightarrow> swf_editor \<Rightarrow> error + (channel_msg list \<times> swf_editor)" where
  "swf_redo eng s =
     (case swf_swfMonacoEditorRef s of
        None \<Rightarrow> Inr ([], s)
      | Some w \<Rightarrow>
          (case widget_redo w of
             (w', None) \<Rightarrow> Inr ([], s\<lparr>swf_swfMonacoEditorRef := Some w'\<rparr>)
           | (w', Some (c, operation)) \<Rightarrow>
               Inr (swf_onContentChanged eng c (Some operation)
                      (s\<lparr>swf_swfMonacoEditorRef := Some w'\<rparr>))))"

definition swf_validate :: "swf_editor \<Rightarrow> error + string list" where
  "swf_validate s = Inr []"

definition swf_setTheme :: "EditorTheme \<Rightarrow> swf_editor \<Rightarrow> error + swf_editor" where
  "swf_setTheme theme s =
     (case swf_swfMonacoEditorRef s of
        None \<Rightarrow> Inr s
      | Some w \<Rightarrow> Inr (s\<lparr>swf_swfMonacoEditorRef := Some (widget_setTheme theme w)\<rparr>))"

text \<open>
  One commit of the component after a state change: the render mounts the widget only
  when \<open>initialContent.path !== ""\<close> and hands it the stored content and path, then
  the \<open>useEffect\<close> on \<open>initialContent\<close> calls \<open>onReady\<close> and
  \<open>onContentChanged(initialContent.originalContent)\<close>, with no operation. The
  render attaches \<open>svgContainer\<close> to no element.
\<close>

definition swf_render :: "swf_editor \<Rightarrow> swf_editor" where
  "swf_render s =
     s\<lparr>swf_swfMonacoEditorRef :=
         (if path (swf_initialContent s) \<noteq> []
          then Some (widget_render (originalContent (swf_initialContent s))
                       (path (swf_initialContent s)) (swf_swfMonacoEditorRef s))
          else None)\<rparr>"

definition swf_useEffect :: "preview_engine \<Rightarrow> swf_editor \<Rightarrow> channel_msg list \<times> swf_editor" where
  "swf_useEffect eng s =
     (case swf_onContentChanged eng (originalContent (swf_initialContent s)) None s of
        (msgs, s') \<Rightarrow> (OnReady # msgs, s'))"

definition swf_commit :: "preview_engine \<Rightarrow> swf_editor \<Rightarrow> channel_msg list \<times> swf_editor" where
  "swf_commit eng s = swf_useEffect eng (swf_render s)"

definition swf_mount :: "preview_engine \<Rightarrow> swf_editor" where
  "swf_mount eng = snd (swf_commit eng swf_useState)"

text \<open>
  What happens to the adapter: a call of the host through the imperative handle
  (followed, for \<open>setContent\<close>, by the commit it schedules), or the user typing in
  the mounted widget, which the widget reports as an \<open>EDIT\<close>.
\<close>

datatype swf_event =
    Swf_SetContent string string
  | Swf_Undo
  | Swf_Redo
  | Swf_SetTheme EditorTheme
  | Swf_UserEdit string

fun swf_exec :: "preview_engine \<Rightarrow> swf_event \<Rightarrow> swf_editor \<Rightarrow> error + (channel_msg list \<times> swf_editor)" where
  "swf_exec eng (Swf_SetContent p c) s = bind_err (swf_setContent p c s) (\<lambda>s1. Inr (swf_commit eng s1))"
| "swf_exec eng Swf_Undo s = swf_undo eng s"
| "swf_exec eng Swf_Redo s = swf_redo eng s"
| "swf_exec eng (Swf_SetTheme theme) s = bind_err (swf_setTheme theme s) (\<lambda>s1. Inr ([], s1))"
| "swf_exec eng (Swf_UserEdit text) s =
     (case swf_swfMonacoEditorRef s of
        None \<Rightarrow> Inr ([], s)
      | Some w \<Rightarrow>
          (case widget_type text w of
             (w', (c, operation)) \<Rightarrow>
               Inr (swf_onContentChanged eng c (Some operation)
                      (s\<lparr>swf_swfMonacoEditorRef := Some w'\<rparr>))))"

fun swf_run :: "preview_engine \<Rightarrow> swf_event list \<Rightarrow> swf_editor \<Rightarrow> swf_editor" where
  "swf_run eng [] s = s"
| "swf_run eng (e # es) s =
     (case swf_exec eng e s of
        Inl err \<Rightarrow> swf_run eng es s
      | Inr (msgs, s') \<Rightarrow> swf_run eng es s')"

text \<open>An engine for which no content parses, for evaluating concrete calls.\<close>

definition no_preview_engine :: preview_engine where
  "no_preview_engine = \<lparr>mermaidSourceCode = (\<lambda>c. None), mermaidInit = (\<lambda>src. None)\<rparr>"

subsection \<open>DashbuilderEditor\<close>

definition INITIAL_CONTENT :: string where
  \<open>INITIAL_CONTENT =
     ''datasets:\<newline>'' @
     ''- uuid: products\<newline>'' @
     ''  content: >-\<newline>'' @
     ''            [\<newline>'' @
     ''              ["Computers", "Scanner", 5, 3],\<newline>'' @
     ''              ["Computers", "Printer", 7, 4],\<newline>'' @
     ''              ["Computers", "Laptop", 3, 2],\<newline>'' @
     ''              ["Electronics", "Camera", 10, 7],\<newline>'' @
     ''              ["Electronics", "Headphones", 5, 9]\<newline>'' @
     ''            ]\<newline>'' @
     ''  columns:\<newline>'' @
     ''    - id: Section\<newline>'' @
     ''      type: LABEL\<newline>'' @
     ''    - id: Product\<newline>'' @
     ''      type: LABEL\<newline>'' @
     ''    - id: Quantity\<newline>'' @
     ''      type: NUMBER\<newline>'' @
     ''    - id: Quantity2\<newline>'' @
     ''      type: NUMBER\<newline>'' @
     ''pages:\<newline>'' @
     ''- components:\<newline>'' @
     ''    - html: Welcome to Dashbuilder!\<newline>'' @
     ''      properties:\<newline>'' @
     ''        font-size: xx-large\<newline>'' @
     ''        margin-bottom: 30px\<newline>'' @
     ''    - settings:\<newline>'' @
     ''        type: BARCHART\<newline>'' @
     ''        dataSetLookup:\<newline>'' @
     ''            uuid: products\<newline>'' @
     ''            group:\<newline>'' @
     ''                - columnGroup:\<newline>'' @
     ''                    source: Product\<newline>'' @
     ''                  groupFunctions:\<newline>'' @
     ''                    - source: Product\<newline>'' @
     ''                    - source: Quantity\<newline>'' @
     ''                      function: SUM\<newline>'' @
     ''                    - source: Quantity2\<newline>'' @
     ''                      function: SUM\<newline>'' @
     ''    - settings:\<newline>'' @
     ''        type: TABLE\<newline>'' @
     ''        dataSetLookup:\<newline>'' @
     ''            uuid: products''\<close>

text \<open>
  The state of \<open>RefForwardingDashbuilderEditor\<close>: the \<open>useState\<close> cells
  \<open>initialContent\<close> and \<open>content\<close> (what the \<open>Dashbuilder\<close> preview shows) and
  the three refs. The preview toggle \<open>showPreview\<close> is left out: no operation of the
  imperative handle reads or writes it.
\<close>

record dash_editor =
  dash_initialContent :: initial_content
  dash_content :: string
  dash_newContentRef :: string
  dash_oldContentRef :: string
  dash_dashbuilderMonacoEditorRef :: "monaco_widget option"

definition dash_useState :: dash_editor where
  "dash_useState =
     \<lparr>dash_initialContent = \<lparr>originalContent = INITIAL_CONTENT, path = []\<rparr>,
      dash_content = [],
      dash_newContentRef = [],
      dash_oldContentRef = [],
      dash_dashbuilderMonacoEditorRef = None\<rparr>"

text \<open>The callback of \<open>setInterval\<close>, run every \<open>UPDATE_TIME\<close> milliseconds.\<close>

definition dash_timer :: "dash_editor \<Rightarrow> dash_editor" where
  "dash_timer s =
     (if dash_newContentRef s \<noteq> dash_oldContentRef s
      then s\<lparr>dash_oldContentRef := dash_newContentRef s, dash_content := dash_newContentRef s\<rparr>
      else if dash_content s \<noteq> dash_oldContentRef s
      then s\<lparr>dash_content := dash_oldContentRef s\<rparr>
      else s)"

text \<open>
  \<open>setContent\<close> has the same \<open>try\<close> and \<open>catch\<close> as in the
  ServerlessWorkflow editor; what it hands to \<open>setInitialContent\<close> is the constant
  \<open>INITIAL_CONTENT\<close> with the given path.
\<close>

definition dash_setContent :: "string \<Rightarrow> string \<Rightarrow> dash_editor \<Rightarrow> error + dash_editor" where
  "dash_setContent p newContent s =
     Inr (s\<lparr>dash_initialContent := \<lparr>originalContent = INITIAL_CONTENT, path = p\<rparr>\<rparr>)"

text \<open>
  \<open>getContent\<close> builds \<open>Promise.resolve(ref.current?.getContent())\<close> when the widget
  is mounted, drops it, and returns \<open>Promise.resolve("")\<close>.
\<close>

definition dash_getContent :: "dash_editor \<Rightarrow> error + string" where
  "dash_getContent s =
     (let dropped = (case dash_dashbuilderMonacoEditorRef s of
                       None \<Rightarrow> None
                     | Some w \<Rightarrow> Some (widget_getContent w))
      in Inr [])"

definition dash_getPreview :: "dash_editor \<Rightarrow> error + string" where
  "dash_getPreview s = Inr []"

definition dash_onContentChanged ::
  "string \<Rightarrow> MonacoEditorOperation option \<Rightarrow> dash_editor \<Rightarrow> channel_msg list \<times> dash_editor" where
  "dash_onContentChanged newContent operation s =
     ((if operation = Some Op_EDIT then [OnNewEdit newContent]
       else if operation = Some Op_UNDO then [OnStateControlCommandUpdate Cmd_UNDO]
       else if operation = Some Op_REDO then [OnStateControlCommandUpdate Cmd_REDO]
       else []),
      s\<lparr>dash_newContentRef := newContent\<rparr>)"

text \<open>
  \<open>undo\<close> and \<open>redo\<close> call the widget only when the ref is set, then copy the
  widget's content into \<open>newContentRef\<close>. The widget's own report of the change, when
  it applies one, runs \<open>onContentChanged\<close> before that assignment.
\<close>

definition dash_undo :: "dash_editor \<Rightarrow> error + (channel_msg list \<times> dash_editor)" where
  "dash_undo s =
     (case dash_dashbuilderMonacoEditorRef s of
        None \<Rightarrow> Inr ([], s)
      | Some w \<Rightarrow>
          (case widget_undo w of
             (w', report) \<Rightarrow>
               (case (case report of
                        None \<Rightarrow> ([], s\<lparr>dash_dashbuilderMonacoEditorRef := Some w'\<rparr>)
                      | Some (c, operation) \<Rightarrow>
                          dash_onContentChanged c (Some operation)
                            (s\<lparr>dash_dashbuilderMonacoEditorRef := Some w'\<rparr>)) of
                  (msgs, s1) \<Rightarrow> Inr (msgs, s1\<lparr>dash_newContentRef := widget_getContent w'\<rparr>))))"

definition dash_redo :: "dash_editor \<Rightarrow> error + (channel_msg list \<times> dash_editor)" where
  "dash_redo s =
     (case dash_dashbuilderMonacoEditorRef s of
        None \<Rightarrow> Inr ([], s)
      | Some w \<Rightarrow>
          (case widget_redo w of
             (w', report) \<Rightarrow>
               (case (case report of
                        None \<Rightarrow> ([], s\<lparr>dash_dashbuilderMonacoEditorRef := Some w'\<rparr>)
                      | Some (c, operation) \<Rightarrow>
                          dash_onContentChanged c (Some operation)
                            (s\<lparr>dash_dashbuilderMonacoEditorRef := Some w'\<rparr>)) of
                  (msgs, s1) \<Rightarrow> Inr (msgs, s1\<lparr>dash_newContentRef := widget_getContent w'\<rparr>))))"

definition dash_validate :: "dash_editor \<Rightarrow> error + string list" where
  "dash_validate s = Inr []"

definition dash_setTheme :: "EditorTheme \<Rightarrow> dash_editor \<Rightarrow> error + dash_editor" where
  "dash_setTheme theme s =
     (case dash_dashbuilderMonacoEditorRef s of
        None \<Rightarrow> Inr s
      | Some w \<Rightarrow> Inr (s\<lparr>dash_dashbuilderMonacoEditorRef := Some (widget_setTheme theme w)\<rparr>))"

definition dash_render :: "dash_editor \<Rightarrow> dash_editor" where
  "dash_render s =
     s\<lparr>dash_dashbuilderMonacoEditorRef :=
         (if path (dash_initialContent s) \<noteq> []
          then Some (widget_render (originalContent (dash_initialContent s))
                       (path (dash_initialContent s)) (dash_dashbuilderMonacoEditorRef s))
          else None)\<rparr>"

definition dash_useEffect :: "dash_editor \<Rightarrow> channel_msg list \<times> dash_editor" where
  "dash_useEffect s =
     (case dash_onContentChanged (originalContent (dash_initialContent s)) None s of
        (msgs, s') \<Rightarrow> (OnReady # msgs, s'))"

definition dash_commit :: "dash_editor \<Rightarrow> channel_msg list \<times> dash_editor" where
  "dash_commit s = dash_useEffect (dash_render s)"

definition dash_mount :: dash_editor where
  "dash_mount = snd (dash_commit dash_useState)"

datatype dash_event =
    Dash_SetContent string string
  | Dash_Undo
  | Dash_Redo
  | Dash_SetTheme EditorTheme
  | Dash_UserEdit string
  | Dash_TimerTick

fun dash_exec :: "dash_event \<Rightarrow> dash_editor \<Rightarrow> error + (channel_msg list \<times> dash_editor)" where
  "dash_exec (Dash_SetContent p c) s = bind_err (dash_setContent p c s) (\<lambda>s1. Inr (dash_commit s1))"
| "dash_exec Dash_Undo s = dash_undo s"
| "dash_exec Dash_Redo s = dash_redo s"
| "dash_exec (Dash_SetTheme theme) s = bind_err (dash_setTheme theme s) (\<lambda>s1. Inr ([], s1))"
| "dash_exec (Dash_UserEdit text) s =
     (case dash_dashbuilderMonacoEditorRef s of
        None \<Rightarrow> Inr ([], s)
      | Some w \<Rightarrow>
          (case widget_type text w of
             (w', (c, operation)) \<Rightarrow>
               Inr (dash_onContentChanged c (Some operation)
                      (s\<lparr>dash_dashbuilderMonacoEditorRef := Some w'\<rparr>))))"
| "dash_exec Dash_TimerTick s = Inr ([], dash_timer s)"

fun dash_run :: "dash_event list \<Rightarrow> dash_editor \<Rightarrow> dash_editor" where
  "dash_run [] s = s"
| "dash_run (e # es) s =
     (case dash_exec e s of
        Inl err \<Rightarrow> dash_run es s
      | Inr (msgs, s') \<Rightarrow> dash_run es s')"

section \<open>Properties of EnvUtil\<close>

lemma isJUnitTest_consistent: "EnvUtil_consistent s \<Longrightarrow> EnvUtil_consistent (snd (isJUnitTest k s))"
  by (cases "cache_isJUnitTest s") (simp_all add: EnvUtil_consistent_def isJUnitTest_def Let_def split: option.splits if_splits)

lemma isDevMode_consistent: "EnvUtil_consistent s \<Longrightarrow> EnvUtil_consistent (snd (isDevMode k s))"
  by (auto simp: EnvUtil_consistent_def isDevMode_def Let_def split: option.splits if_splits)

lemma isProdMode_consistent: "EnvUtil_consistent s \<Longrightarrow> EnvUtil_consistent (snd (isProdMode k s))"
  by (auto simp: EnvUtil_consistent_def isProdMode_def isDevMode_def isJUnitTest_def Let_def split: option.splits prod.splits if_splits)

lemma exec_consistent: "EnvUtil_consistent s \<Longrightarrow> EnvUtil_consistent (EnvUtil_exec c s)"
  by (cases c) (simp_all add: isJUnitTest_consistent isDevMode_consistent isProdMode_consistent recordEnvironmentState_def)

lemma run_consistent: "EnvUtil_consistent s \<Longrightarrow> EnvUtil_consistent (EnvUtil_run cs s)"
  by (induction cs arbitrary: s) (simp_all add: exec_consistent)

lemma init_consistent: "EnvUtil_consistent EnvUtil_init"
  by (simp add: EnvUtil_consistent_def EnvUtil_init_def)

text \<open>Caches, once set, are never changed.\<close>

lemma junit_cache_exec: "cache_isJUnitTest s = Some b \<Longrightarrow> cache_isJUnitTest (EnvUtil_exec c s) = Some b"
  by (cases c) (auto simp: isJUnitTest_def isDevMode_def isProdMode_def recordEnvironmentState_def Let_def split: option.splits prod.splits if_splits)

lemma dev_cache_exec: "cache_isDevMode s = Some b \<Longrightarrow> cache_isDevMode (EnvUtil_exec c s) = Some b"
  by (cases c) (auto simp: isJUnitTest_def isDevMode_def isProdMode_def recordEnvironmentState_def Let_def split: option.splits prod.splits if_splits)

lemma prod_cache_exec: "cache_isProdMode s = Some b \<Longrightarrow> cache_isProdMode (EnvUtil_exec c s) = Some b"
  by (cases c) (auto simp: isJUnitTest_def isDevMode_def isProdMode_def recordEnvironmentState_def Let_def split: option.splits prod.splits if_splits)

lemma junit_cache_run: "cache_isJUnitTest s = Some b \<Longrightarrow> cache_isJUnitTest (EnvUtil_run cs s) = Some b"
  by (induction cs arbitrary: s) (simp_all add: junit_cache_exec)
lemma dev_cache_run: "cache_isDevMode s = Some b \<Longrightarrow> cache_isDevMode (EnvUtil_run cs s) = Some b"
  by (induction cs arbitrary: s) (simp_all add: dev_cache_exec)
lemma prod_cache_run: "cache_isProdMode s = Some b \<Longrightarrow> cache_isProdMode (EnvUtil_run cs s) = Some b"
  by (induction cs arbitrary: s) (simp_all add: prod_cache_exec)

lemma junit_sets: "cache_isJUnitTest (snd (isJUnitTest k s)) = Some (fst (isJUnitTest k s))"
  by (simp add: isJUnitTest_def Let_def split: option.splits)
lemma dev_sets: "cache_isDevMode (snd (isDevMode k s)) = Some (fst (isDevMode k s))"
  by (simp add: isDevMode_def Let_def split: option.splits)
lemma prod_sets: "cache_isProdMode (snd (isProdMode k s)) = Some (fst (isProdMode k s))"
  by (simp add: isProdMode_def Let_def split: option.splits prod.splits)

lemma junit_reads: "cache_isJUnitTest s = Some b \<Longrightarrow> fst (isJUnitTest k s) = b"
  by (simp add: isJUnitTest_def)
lemma dev_reads: "cache_isDevMode s = Some b \<Longrightarrow> fst (isDevMode k s) = b"
  by (simp add: isDevMode_def)
lemma prod_reads: "cache_isProdMode s = Some b \<Longrightarrow> fst (isProdMode k s) = b"
  by (simp add: isProdMode_def)

lemma junit_memo: "fst (isJUnitTest k' (EnvUtil_run cs (snd (isJUnitTest k s)))) = fst (isJUnitTest k s)"
  by (rule junit_reads, rule junit_cache_run, rule junit_sets)
lemma dev_memo: "fst (isDevMode k' (EnvUtil_run cs (snd (isDevMode k s)))) = fst (isDevMode k s)"
  by (rule dev_reads, rule dev_cache_run, rule dev_sets)
lemma prod_memo: "fst (isProdMode k' (EnvUtil_run cs (snd (isProdMode k s)))) = fst (isProdMode k s)"
  by (rule prod_reads, rule prod_cache_run, rule prod_sets)

lemma isProdMode_iff:
  assumes "EnvUtil_consistent s"
  shows "fst (isProdMode k1 s) =
     (\<not> fst (isDevMode k2 (EnvUtil_run cs (snd (isProdMode k1 s)))) \<and>
      \<not> fst (isJUnitTest k3 (EnvUtil_run cs' (snd (isProdMode k1 s)))))"
proof -
  let ?s1 = "snd (isProdMode k1 s)" and ?p = "fst (isProdMode k1 s)"
  have c1: "EnvUtil_consistent ?s1" using assms by (rule isProdMode_consistent)
  have p1: "cache_isProdMode ?s1 = Some ?p" by (rule prod_sets)
  from c1 p1 obtain d where d: "cache_isDevMode ?s1 = Some d"
    by (auto simp: EnvUtil_consistent_def split: option.splits)
  have dev: "fst (isDevMode k2 (EnvUtil_run cs ?s1)) = d"
    by (rule dev_reads, rule dev_cache_run, rule d)
  show ?thesis
  proof (cases d)
    case True
    with c1 p1 d have "\<not> ?p" by (simp add: EnvUtil_consistent_def)
    with True dev show ?thesis by simp
  next
    case False
    with c1 p1 d obtain j where j: "cache_isJUnitTest ?s1 = Some j" and pj: "?p = (\<not> j)"
      by (auto simp: EnvUtil_consistent_def split: option.splits)
    have "fst (isJUnitTest k3 (EnvUtil_run cs' ?s1)) = j"
      by (rule junit_reads, rule junit_cache_run, rule j)
    with False dev pj show ?thesis by simp
  qed
qed

lemma EnvUtil_run_consistent: "EnvUtil_consistent (EnvUtil_run cs EnvUtil_init)"
  by (rule run_consistent, rule init_consistent)

text \<open>
  Claim C10. In every state the class reaches from its initial one, \<open>isProdMode()\<close>
  returns true if and only if \<open>isDevMode()\<close> and \<open>isJUnitTest()\<close> both return
  false, whatever calls are made in between and from whatever stacks; and each of the
  three predicates is memoised: once it has returned, every later call returns the same
  boolean, whatever the stack of the later call and whatever calls were made in between.
\<close>

theorem EnvUtil_isProdMode_memoized:
  "fst (isProdMode k (EnvUtil_run pre EnvUtil_init)) =
     (\<not> fst (isDevMode kd (EnvUtil_run cs (snd (isProdMode k (EnvUtil_run pre EnvUtil_init))))) \<and>
      \<not> fst (isJUnitTest kj (EnvUtil_run cs' (snd (isProdMode k (EnvUtil_run pre EnvUtil_init))))))
   \<and> fst (isProdMode k' (EnvUtil_run cs (snd (isProdMode k s)))) = fst (isProdMode k s)
   \<and> fst (isDevMode k' (EnvUtil_run cs (snd (isDevMode k s)))) = fst (isDevMode k s)
   \<and> fst (isJUnitTest k' (EnvUtil_run cs (snd (isJUnitTest k s)))) = fst (isJUnitTest k s)"
proof -
  have "fst (isProdMode k (EnvUtil_run pre EnvUtil_init)) =
     (\<not> fst (isDevMode kd (EnvUtil_run cs (snd (isProdMode k (EnvUtil_run pre EnvUtil_init))))) \<and>
      \<not> fst (isJUnitTest kj (EnvUtil_run cs' (snd (isProdMode k (EnvUtil_run pre EnvUtil_init))))))"
    by (rule isProdMode_iff, rule EnvUtil_run_consistent)
  then show ?thesis
    by (simp only: prod_memo dev_memo junit_memo simp_thms)
qed

text \<open>
  A run: production mode is computed from an application stack; a later call of
  \<open>isDevMode\<close> from a development-mode stack, after a call of \<open>isJUnitTest\<close> from
  a JUnit stack, still answers false.
\<close>

theorem EnvUtil_isProdMode_memoized_witness:
  "fst (isProdMode [''app.Main''] EnvUtil_init)
   \<and> \<not> fst (isDevMode [''com.google.gwt.dev.shell.OophmSessionHandler'']
            (EnvUtil_run [Call_isJUnitTest [''org.junit.runners.ParentRunner'']]
               (snd (isProdMode [''app.Main''] EnvUtil_init))))"
proof -
  have p: "fst (isProdMode [''app.Main''] EnvUtil_init)"
    by (simp add: isProdMode_def isDevMode_def isJUnitTest_def EnvUtil_init_def
        getStackTrace_def EnvUtil_class_def startsWith_def)
  from p EnvUtil_isProdMode_memoized
    [where k = "[''app.Main'']" and pre = "[]"
       and kd = "[''com.google.gwt.dev.shell.OophmSessionHandler'']"
       and cs = "[Call_isJUnitTest [''org.junit.runners.ParentRunner'']]"]
  show ?thesis by simp
qed

section \<open>Properties of the editor adapters\<close>

subsection \<open>The preview container is never attached\<close>

lemma swf_updateDiagram_svg:
  "swf_svgContainer s = None \<Longrightarrow> swf_svgContainer (swf_updateDiagram eng c s) = None"
  by (simp add: swf_updateDiagram_def split: option.splits)

lemma swf_updateDiagram_ref:
  "swf_swfMonacoEditorRef (swf_updateDiagram eng c s) = swf_swfMonacoEditorRef s"
  by (simp add: swf_updateDiagram_def split: option.splits)

lemma swf_updateDiagram_initialContent:
  "swf_initialContent (swf_updateDiagram eng c s) = swf_initialContent s"
  by (simp add: swf_updateDiagram_def split: option.splits)

lemma swf_onContentChanged_svg:
  "swf_svgContainer s = None \<Longrightarrow> swf_svgContainer (snd (swf_onContentChanged eng c operation s)) = None"
  by (simp add: swf_onContentChanged_def swf_updateDiagram_svg)

lemma swf_commit_svg:
  "swf_svgContainer s = None \<Longrightarrow> swf_svgContainer (snd (swf_commit eng s)) = None"
  by (simp add: swf_commit_def swf_useEffect_def swf_render_def swf_onContentChanged_def
      swf_updateDiagram_svg split: prod.splits)

lemma swf_exec_svg:
  assumes "swf_svgContainer s = None" and "swf_exec eng e s = Inr (msgs, s')"
  shows "swf_svgContainer s' = None"
proof (cases e)
  case (Swf_SetContent p c)
  with assms swf_commit_svg [of "s\<lparr>swf_initialContent := \<lparr>originalContent = c, path = p\<rparr>\<rparr>" eng]
  show ?thesis by (auto simp: bind_err_def swf_setContent_def)
next
  case Swf_Undo
  with assms show ?thesis
    by (auto simp: swf_undo_def swf_onContentChanged_def swf_updateDiagram_svg
        split: option.splits prod.splits)
next
  case Swf_Redo
  with assms show ?thesis
    by (auto simp: swf_redo_def swf_onContentChanged_def swf_updateDiagram_svg
        split: option.splits prod.splits)
next
  case (Swf_SetTheme t)
  with assms show ?thesis
    by (auto simp: swf_setTheme_def bind_err_def split: option.splits)
next
  case (Swf_UserEdit t)
  with assms show ?thesis
    by (auto simp: swf_onContentChanged_def swf_updateDiagram_svg
        split: option.splits prod.splits)
qed

lemma swf_run_svg:
  "swf_svgContainer s = None \<Longrightarrow> swf_svgContainer (swf_run eng es s) = None"
proof (induction es arbitrary: s)
  case Nil
  then show ?case by simp
next
  case (Cons e es)
  show ?case
  proof (cases "swf_exec eng e s")
    case (Inl err)
    with Cons show ?thesis by simp
  next
    case (Inr r)
    obtain msgs s' where r: "r = (msgs, s')" by (cases r)
    with Inr Cons.prems have "swf_svgContainer s' = None" by (auto dest: swf_exec_svg)
    with Cons.IH Inr r show ?thesis by simp
  qed
qed

lemma swf_mount_svg: "swf_svgContainer (swf_mount eng) = None"
  by (simp add: swf_mount_def swf_commit_svg swf_useState_def)

lemma swf_mount_eq:
  "swf_mount eng = swf_useState\<lparr>swf_diagramOutOfSync := True\<rparr>"
  by (simp add: swf_mount_def swf_commit_def swf_useEffect_def swf_render_def
      swf_onContentChanged_def swf_updateDiagram_def swf_useState_def split: option.splits)

subsection \<open>What \<open>setContent\<close> stores and emits\<close>

lemma swf_exec_SetContent:
  "swf_exec eng (Swf_SetContent p c) s =
     Inr ([OnReady],
          swf_updateDiagram eng c
            (s\<lparr>swf_initialContent := \<lparr>originalContent = c, path = p\<rparr>,
               swf_swfMonacoEditorRef :=
                 (if p \<noteq> [] then Some (widget_render c p (swf_swfMonacoEditorRef s)) else None)\<rparr>))"
  by (simp add: bind_err_def swf_setContent_def swf_commit_def swf_useEffect_def swf_render_def
      swf_onContentChanged_def)

lemma dash_exec_SetContent:
  "dash_exec (Dash_SetContent p c) s =
     Inr ([OnReady],
          s\<lparr>dash_initialContent := \<lparr>originalContent = INITIAL_CONTENT, path = p\<rparr>,
            dash_dashbuilderMonacoEditorRef :=
              (if p \<noteq> [] then Some (widget_render INITIAL_CONTENT p (dash_dashbuilderMonacoEditorRef s))
               else None),
            dash_newContentRef := INITIAL_CONTENT\<rparr>)"
  by (simp add: bind_err_def dash_setContent_def dash_commit_def dash_useEffect_def dash_render_def
      dash_onContentChanged_def)

lemma widget_render_buffer: "w_buffer (widget_render c p old) = c"
  by (simp add: widget_render_def split: option.splits)

lemma widget_render_fileName: "w_fileName (widget_render c p old) = p"
  by (simp add: widget_render_def split: option.splits)

lemma swf_setContent_getContent:
  "p \<noteq> [] \<Longrightarrow>
   bind_err (swf_exec eng (Swf_SetContent p c) s) (\<lambda>(msgs, s'). swf_getContent s') = Inr c"
  by (simp add: swf_exec_SetContent bind_err_def swf_getContent_def swf_updateDiagram_ref
      widget_getContent_def widget_render_buffer or_empty_def del: swf_exec.simps)

lemma swf_setContent_stores:
  assumes "swf_exec eng (Swf_SetContent p c) s = Inr (msgs, s')"
  shows "swf_initialContent s' = \<lparr>originalContent = c, path = p\<rparr>"
    and "p \<noteq> [] \<Longrightarrow> map_option w_buffer (swf_swfMonacoEditorRef s') = Some c"
    and "p \<noteq> [] \<Longrightarrow> map_option w_fileName (swf_swfMonacoEditorRef s') = Some p"
  using assms
  by (auto simp: swf_exec_SetContent swf_updateDiagram_ref swf_updateDiagram_initialContent
      widget_render_buffer widget_render_fileName simp del: swf_exec.simps)

subsection \<open>Undo, redo, validation and theme\<close>

lemma swf_undo_emitted:
  "emitted (swf_undo eng s) =
     (if widget_canUndo (swf_swfMonacoEditorRef s) then [OnStateControlCommandUpdate Cmd_UNDO] else [])"
  by (simp add: swf_undo_def widget_undo_def widget_canUndo_def emitted_def swf_onContentChanged_def
      split: option.splits list.splits)

lemma swf_redo_emitted:
  "emitted (swf_redo eng s) =
     (if widget_canRedo (swf_swfMonacoEditorRef s) then [OnStateControlCommandUpdate Cmd_REDO] else [])"
  by (simp add: swf_redo_def widget_redo_def widget_canRedo_def emitted_def swf_onContentChanged_def
      split: option.splits list.splits)

lemma dash_undo_emitted:
  "emitted (dash_undo d) =
     (if widget_canUndo (dash_dashbuilderMonacoEditorRef d) then [OnStateControlCommandUpdate Cmd_UNDO] else [])"
  by (simp add: dash_undo_def widget_undo_def widget_canUndo_def emitted_def dash_onContentChanged_def
      split: option.splits list.splits)

lemma dash_redo_emitted:
  "emitted (dash_redo d) =
     (if widget_canRedo (dash_dashbuilderMonacoEditorRef d) then [OnStateControlCommandUpdate Cmd_REDO] else [])"
  by (simp add: dash_redo_def widget_redo_def widget_canRedo_def emitted_def dash_onContentChanged_def
      split: option.splits list.splits)

text \<open>
  What \<open>undo\<close> and \<open>redo\<close> return, by cases on the widget and its history, and
  from that: the command is signalled exactly when the call changes the widget.
\<close>

lemma undo_changes_widget:
  "w_undoStack w \<noteq> [] \<Longrightarrow>
   w\<lparr>w_buffer := hd (w_undoStack w), w_undoStack := tl (w_undoStack w),
     w_redoStack := w_buffer w # w_redoStack w\<rparr> \<noteq> w"
proof
  assume ne: "w_undoStack w \<noteq> []"
  assume "w\<lparr>w_buffer := hd (w_undoStack w), w_undoStack := tl (w_undoStack w),
     w_redoStack := w_buffer w # w_redoStack w\<rparr> = w"
  then have "w_undoStack (w\<lparr>w_buffer := hd (w_undoStack w), w_undoStack := tl (w_undoStack w),
     w_redoStack := w_buffer w # w_redoStack w\<rparr>) = w_undoStack w" by (rule arg_cong)
  then have "tl (w_undoStack w) = w_undoStack w" by simp
  with ne show False by (cases "w_undoStack w") simp_all
qed

lemma redo_changes_widget:
  "w_redoStack w \<noteq> [] \<Longrightarrow>
   w\<lparr>w_buffer := hd (w_redoStack w), w_redoStack := tl (w_redoStack w),
     w_undoStack := w_buffer w # w_undoStack w\<rparr> \<noteq> w"
proof
  assume ne: "w_redoStack w \<noteq> []"
  assume "w\<lparr>w_buffer := hd (w_redoStack w), w_redoStack := tl (w_redoStack w),
     w_undoStack := w_buffer w # w_undoStack w\<rparr> = w"
  then have "w_redoStack (w\<lparr>w_buffer := hd (w_redoStack w), w_redoStack := tl (w_redoStack w),
     w_undoStack := w_buffer w # w_undoStack w\<rparr>) = w_redoStack w" by (rule arg_cong)
  then have "tl (w_redoStack w) = w_redoStack w" by simp
  with ne show False by (cases "w_redoStack w") simp_all
qed

lemma swf_undo_eq:
  "swf_undo eng s =
     (case swf_swfMonacoEditorRef s of
        None \<Rightarrow> Inr ([], s)
      | Some w \<Rightarrow>
          if w_undoStack w = [] then Inr ([], s)
          else Inr ([OnStateControlCommandUpdate Cmd_UNDO],
                 swf_updateDiagram eng (hd (w_undoStack w))
                   (s\<lparr>swf_swfMonacoEditorRef :=
                        Some (w\<lparr>w_buffer := hd (w_undoStack w),
                                w_undoStack := tl (w_undoStack w),
                                w_redoStack := w_buffer w # w_redoStack w\<rparr>)\<rparr>)))"
  by (cases s)
     (simp add: swf_undo_def widget_undo_def swf_onContentChanged_def
        split: option.splits list.splits)

lemma swf_redo_eq:
  "swf_redo eng s =
     (case swf_swfMonacoEditorRef s of
        None \<Rightarrow> Inr ([], s)
      | Some w \<Rightarrow>
          if w_redoStack w = [] then Inr ([], s)
          else Inr ([OnStateControlCommandUpdate Cmd_REDO],
                 swf_updateDiagram eng (hd (w_redoStack w))
                   (s\<lparr>swf_swfMonacoEditorRef :=
                        Some (w\<lparr>w_buffer := hd (w_redoStack w),
                                w_redoStack := tl (w_redoStack w),
                                w_undoStack := w_buffer w # w_undoStack w\<rparr>)\<rparr>)))"
  by (cases s)
     (simp add: swf_redo_def widget_redo_def swf_onContentChanged_def
        split: option.splits list.splits)

lemma dash_undo_eq:
  "dash_undo d =
     (case dash_dashbuilderMonacoEditorRef d of
        None \<Rightarrow> Inr ([], d)
      | Some w \<Rightarrow>
          if w_undoStack w = [] then Inr ([], d\<lparr>dash_newContentRef := w_buffer w\<rparr>)
          else Inr ([OnStateControlCommandUpdate Cmd_UNDO],
                 d\<lparr>dash_dashbuilderMonacoEditorRef :=
                        Some (w\<lparr>w_buffer := hd (w_undoStack w),
                                w_undoStack := tl (w_undoStack w),
                                w_redoStack := w_buffer w # w_redoStack w\<rparr>),
                   dash_newContentRef := hd (w_undoStack w)\<rparr>))"
  by (cases d)
     (simp add: dash_undo_def widget_undo_def dash_onContentChanged_def widget_getContent_def
        split: option.splits list.splits)

lemma dash_redo_eq:
  "dash_redo d =
     (case dash_dashbuilderMonacoEditorRef d of
        None \<Rightarrow> Inr ([], d)
      | Some w \<Rightarrow>
          if w_redoStack w = [] then Inr ([], d\<lparr>dash_newContentRef := w_buffer w\<rparr>)
          else Inr ([OnStateControlCommandUpdate Cmd_REDO],
                 d\<lparr>dash_dashbuilderMonacoEditorRef :=
                        Some (w\<lparr>w_buffer := hd (w_redoStack w),
                                w_redoStack := tl (w_redoStack w),
                                w_undoStack := w_buffer w # w_undoStack w\<rparr>),
                   dash_newContentRef := hd (w_redoStack w)\<rparr>))"
  by (cases d)
     (simp add: dash_redo_def widget_redo_def dash_onContentChanged_def widget_getContent_def
        split: option.splits list.splits)

lemma swf_undo_coupled:
  "(if widget_canUndo (swf_swfMonacoEditorRef s)
    then swf_swfMonacoEditorRef (state_after (swf_undo eng s) s) =
           map_option (\<lambda>w. w\<lparr>w_buffer := hd (w_undoStack w),
                               w_undoStack := tl (w_undoStack w),
                               w_redoStack := w_buffer w # w_redoStack w\<rparr>)
             (swf_swfMonacoEditorRef s)
    else swf_undo eng s = Inr ([], s))"
  by (simp add: swf_undo_eq widget_canUndo_def state_after_def swf_updateDiagram_ref
      split: option.splits)

lemma swf_undo_iff:
  "(emitted (swf_undo eng s) = [OnStateControlCommandUpdate Cmd_UNDO]) =
   (swf_swfMonacoEditorRef (state_after (swf_undo eng s) s) \<noteq> swf_swfMonacoEditorRef s)"
  by (simp add: swf_undo_eq emitted_def state_after_def swf_updateDiagram_ref undo_changes_widget
      split: option.splits)

lemma swf_redo_coupled:
  "(if widget_canRedo (swf_swfMonacoEditorRef s)
    then swf_swfMonacoEditorRef (state_after (swf_redo eng s) s) =
           map_option (\<lambda>w. w\<lparr>w_buffer := hd (w_redoStack w),
                               w_redoStack := tl (w_redoStack w),
                               w_undoStack := w_buffer w # w_undoStack w\<rparr>)
             (swf_swfMonacoEditorRef s)
    else swf_redo eng s = Inr ([], s))"
  by (simp add: swf_redo_eq widget_canRedo_def state_after_def swf_updateDiagram_ref
      split: option.splits)

lemma swf_redo_iff:
  "(emitted (swf_redo eng s) = [OnStateControlCommandUpdate Cmd_REDO]) =
   (swf_swfMonacoEditorRef (state_after (swf_redo eng s) s) \<noteq> swf_swfMonacoEditorRef s)"
  by (simp add: swf_redo_eq emitted_def state_after_def swf_updateDiagram_ref redo_changes_widget
      split: option.splits)

lemma dash_undo_coupled:
  "(if widget_canUndo (dash_dashbuilderMonacoEditorRef d)
    then dash_dashbuilderMonacoEditorRef (state_after (dash_undo d) d) =
           map_option (\<lambda>w. w\<lparr>w_buffer := hd (w_undoStack w),
                               w_undoStack := tl (w_undoStack w),
                               w_redoStack := w_buffer w # w_redoStack w\<rparr>)
             (dash_dashbuilderMonacoEditorRef d)
    else dash_undo d =
           Inr ([], case dash_dashbuilderMonacoEditorRef d of
                      None \<Rightarrow> d
                    | Some w \<Rightarrow> d\<lparr>dash_newContentRef := w_buffer w\<rparr>))"
  by (simp add: dash_undo_eq widget_canUndo_def state_after_def split: option.splits)

lemma dash_undo_iff:
  "(emitted (dash_undo d) = [OnStateControlCommandUpdate Cmd_UNDO]) =
   (dash_dashbuilderMonacoEditorRef (state_after (dash_undo d) d) \<noteq> dash_dashbuilderMonacoEditorRef d)"
  by (simp add: dash_undo_eq emitted_def state_after_def undo_changes_widget
      split: option.splits)

lemma dash_redo_coupled:
  "(if widget_canRedo (dash_dashbuilderMonacoEditorRef d)
    then dash_dashbuilderMonacoEditorRef (state_after (dash_redo d) d) =
           map_option (\<lambda>w. w\<lparr>w_buffer := hd (w_redoStack w),
                               w_redoStack := tl (w_redoStack w),
                               w_undoStack := w_buffer w # w_undoStack w\<rparr>)
             (dash_dashbuilderMonacoEditorRef d)
    else dash_redo d =
           Inr ([], case dash_dashbuilderMonacoEditorRef d of
                      None \<Rightarrow> d
                    | Some w \<Rightarrow> d\<lparr>dash_newContentRef := w_buffer w\<rparr>))"
  by (simp add: dash_redo_eq widget_canRedo_def state_after_def split: option.splits)

lemma dash_redo_iff:
  "(emitted (dash_redo d) = [OnStateControlCommandUpdate Cmd_REDO]) =
   (dash_dashbuilderMonacoEditorRef (state_after (dash_redo d) d) \<noteq> dash_dashbuilderMonacoEditorRef d)"
  by (simp add: dash_redo_eq emitted_def state_after_def redo_changes_widget
      split: option.splits)

lemma swf_operations_succeed:
  "\<not> isl (swf_undo eng s)" "\<not> isl (swf_redo eng s)" "\<not> isl (swf_validate s)"
  "\<not> isl (swf_setTheme theme s)"
  by (simp_all add: swf_undo_def swf_redo_def swf_validate_def swf_setTheme_def
      split: option.splits prod.splits)

lemma dash_operations_succeed:
  "\<not> isl (dash_undo d)" "\<not> isl (dash_redo d)" "\<not> isl (dash_validate d)"
  "\<not> isl (dash_setTheme theme d)"
  by (simp_all add: dash_undo_def dash_redo_def dash_validate_def dash_setTheme_def
      split: option.splits prod.splits)

subsection \<open>The claims\<close>

text \<open>
  Claim C1. The claim asks that \<open>setContent(path, content)\<close> followed by
  \<open>getContent()\<close> returns \<open>content\<close>, in both editors. The ServerlessWorkflow
  editor does so for every non-empty path (\<open>swf_setContent_getContent\<close>). The
  Dashbuilder editor does not: after \<open>setContent("dashboard.dash.yml", "pages: []")\<close>
  on the freshly mounted editor, \<open>getContent()\<close> resolves to the empty string.
\<close>

theorem dash_setContent_getContent_empty:
  "bind_err (dash_exec (Dash_SetContent ''dashboard.dash.yml'' ''pages: []'') dash_mount)
     (\<lambda>(msgs, s'). dash_getContent s') = Inr []
   \<and> [] \<noteq> ''pages: []''"
  by (simp add: dash_exec_SetContent bind_err_def dash_getContent_def del: dash_exec.simps)

text \<open>
  Claim C2. The claim asks that a successful \<open>setContent(path, content)\<close> stores the
  given path and the given content. The ServerlessWorkflow editor does
  (\<open>swf_setContent_stores\<close>). The Dashbuilder editor stores the given path but the
  constant \<open>INITIAL_CONTENT\<close> in place of the content: on the freshly mounted editor,
  \<open>setContent("dashboard.dash.yml", "pages: []")\<close> stores \<open>INITIAL_CONTENT\<close>, which
  is not \<open>"pages: []"\<close>.
\<close>

theorem dash_setContent_stores_INITIAL_CONTENT:
  "dash_setContent ''dashboard.dash.yml'' ''pages: []'' dash_mount =
     Inr (dash_mount\<lparr>dash_initialContent :=
            \<lparr>originalContent = INITIAL_CONTENT, path = ''dashboard.dash.yml''\<rparr>\<rparr>)
   \<and> INITIAL_CONTENT \<noteq> ''pages: []''"
  by (simp add: dash_setContent_def INITIAL_CONTENT_def)




text \<open>
  Claim C4, as stated, fails for the uninitialized adapter: on the freshly mounted
  ServerlessWorkflow editor, before any content is set, \<open>getContent()\<close> does not
  fail; it resolves to the empty string.
\<close>

theorem swf_getContent_uninitialized_counterexample:
  "swf_getContent (swf_mount no_preview_engine) = Inr []"
  by (simp add: swf_mount_eq swf_getContent_def swf_useState_def)

text \<open>
  Claim C4, amended. \<open>getContent()\<close> never fails the caller. In the
  ServerlessWorkflow editor it resolves to the current buffer of the widget when the
  widget is mounted, and to the empty string while no widget is mounted.
\<close>

theorem getContent_never_fails:
  "swf_getContent s =
     Inr (case swf_swfMonacoEditorRef s of None \<Rightarrow> [] | Some w \<Rightarrow> w_buffer w)
   \<and> \<not> isl (dash_getContent d)"
  by (simp add: swf_getContent_def dash_getContent_def widget_getContent_def or_empty_def
      split: option.splits)

theorem getContent_never_fails_witness:
  "swf_getContent
     (swf_run no_preview_engine [Swf_SetContent ''a.sw.json'' ''{}'', Swf_UserEdit ''{ }'']
        (swf_mount no_preview_engine)) = Inr ''{ }''"
  using getContent_never_fails
    [where s = "swf_run no_preview_engine
                  [Swf_SetContent ''a.sw.json'' ''{}'', Swf_UserEdit ''{ }'']
                  (swf_mount no_preview_engine)"]
  by (simp add: swf_mount_eq swf_useState_def bind_err_def swf_setContent_def swf_commit_def
      swf_useEffect_def swf_render_def swf_onContentChanged_def swf_updateDiagram_def
      no_preview_engine_def widget_render_def widget_type_def)

text \<open>
  Claim C5. The claim asks that \<open>getPreview()\<close> never throws. In the
  ServerlessWorkflow editor the ref \<open>svgContainer\<close> is attached to no element, so
  after mounting and any sequence of calls and edits, whatever the contents and whatever
  the workflow parser and the renderer do, \<open>getPreview()\<close> throws a \<open>TypeError\<close>.
\<close>

theorem swf_getPreview_throws:
  "swf_getPreview (swf_run eng es (swf_mount eng)) = Inl TypeError"
  by (simp add: swf_getPreview_def swf_run_svg swf_mount_svg)

theorem swf_getPreview_throws_witness:
  "swf_getPreview
     (swf_run no_preview_engine [Swf_SetContent ''a.sw.json'' ''not a workflow'']
        (swf_mount no_preview_engine)) = Inl TypeError"
  by (rule swf_getPreview_throws)

text \<open>
  Claim C6. A content change that the widget reports with the operation \<open>UNDO\<close>
  (\<open>REDO\<close>) makes the adapter signal exactly one state-control command, \<open>UNDO\<close>
  (\<open>REDO\<close>), and nothing else. A call of \<open>undo()\<close> (\<open>redo()\<close>) signals that
  one command exactly when the operation is applied, that is, when the call changes the
  widget: the widget is mounted, its history is not empty, and the call leaves it with
  the last state of the history as its buffer, that state removed from the history and
  the old buffer put on the opposite history. Otherwise the call is a no-op: it signals
  nothing and leaves the widget as it is. The ServerlessWorkflow editor then returns its
  state unchanged; the Dashbuilder editor only copies the buffer of a mounted widget
  into \<open>newContentRef\<close>.
\<close>

theorem undo_redo_signal_once:
  "fst (swf_onContentChanged eng c (Some Op_UNDO) s) = [OnStateControlCommandUpdate Cmd_UNDO]
   \<and> fst (swf_onContentChanged eng c (Some Op_REDO) s) = [OnStateControlCommandUpdate Cmd_REDO]
   \<and> fst (dash_onContentChanged c (Some Op_UNDO) d) = [OnStateControlCommandUpdate Cmd_UNDO]
   \<and> fst (dash_onContentChanged c (Some Op_REDO) d) = [OnStateControlCommandUpdate Cmd_REDO]
   \<and> emitted (swf_undo eng s) =
       (if widget_canUndo (swf_swfMonacoEditorRef s)
        then [OnStateControlCommandUpdate Cmd_UNDO] else [])
   \<and> emitted (swf_redo eng s) =
       (if widget_canRedo (swf_swfMonacoEditorRef s)
        then [OnStateControlCommandUpdate Cmd_REDO] else [])
   \<and> emitted (dash_undo d) =
       (if widget_canUndo (dash_dashbuilderMonacoEditorRef d)
        then [OnStateControlCommandUpdate Cmd_UNDO] else [])
   \<and> emitted (dash_redo d) =
       (if widget_canRedo (dash_dashbuilderMonacoEditorRef d)
        then [OnStateControlCommandUpdate Cmd_REDO] else [])
   \<and> (emitted (swf_undo eng s) = [OnStateControlCommandUpdate Cmd_UNDO]) =
       (swf_swfMonacoEditorRef (state_after (swf_undo eng s) s) \<noteq> swf_swfMonacoEditorRef s)
   \<and> (emitted (swf_redo eng s) = [OnStateControlCommandUpdate Cmd_REDO]) =
       (swf_swfMonacoEditorRef (state_after (swf_redo eng s) s) \<noteq> swf_swfMonacoEditorRef s)
   \<and> (emitted (dash_undo d) = [OnStateControlCommandUpdate Cmd_UNDO]) =
       (dash_dashbuilderMonacoEditorRef (state_after (dash_undo d) d) \<noteq>
        dash_dashbuilderMonacoEditorRef d)
   \<and> (emitted (dash_redo d) = [OnStateControlCommandUpdate Cmd_REDO]) =
       (dash_dashbuilderMonacoEditorRef (state_after (dash_redo d) d) \<noteq>
        dash_dashbuilderMonacoEditorRef d)
   \<and> (if widget_canUndo (swf_swfMonacoEditorRef s)
       then swf_swfMonacoEditorRef (state_after (swf_undo eng s) s) =
              map_option (\<lambda>w. w\<lparr>w_buffer := hd (w_undoStack w),
                                  w_undoStack := tl (w_undoStack w),
                                  w_redoStack := w_buffer w # w_redoStack w\<rparr>)
                (swf_swfMonacoEditorRef s)
       else swf_undo eng s = Inr ([], s))
   \<and> (if widget_canRedo (swf_swfMonacoEditorRef s)
       then swf_swfMonacoEditorRef (state_after (swf_redo eng s) s) =
              map_option (\<lambda>w. w\<lparr>w_buffer := hd (w_redoStack w),
                                  w_redoStack := tl (w_redoStack w),
                                  w_undoStack := w_buffer w # w_undoStack w\<rparr>)
                (swf_swfMonacoEditorRef s)
       else swf_redo eng s = Inr ([], s))
   \<and> (if widget_canUndo (dash_dashbuilderMonacoEditorRef d)
       then dash_dashbuilderMonacoEditorRef (state_after (dash_undo d) d) =
              map_option (\<lambda>w. w\<lparr>w_buffer := hd (w_undoStack w),
                                  w_undoStack := tl (w_undoStack w),
                                  w_redoStack := w_buffer w # w_redoStack w\<rparr>)
                (dash_dashbuilderMonacoEditorRef d)
       else dash_undo d =
              Inr ([], case dash_dashbuilderMonacoEditorRef d of
                         None \<Rightarrow> d
                       | Some w \<Rightarrow> d\<lparr>dash_newContentRef := w_buffer w\<rparr>))
   \<and> (if widget_canRedo (dash_dashbuilderMonacoEditorRef d)
       then dash_dashbuilderMonacoEditorRef (state_after (dash_redo d) d) =
              map_option (\<lambda>w. w\<lparr>w_buffer := hd (w_redoStack w),
                                  w_redoStack := tl (w_redoStack w),
                                  w_undoStack := w_buffer w # w_undoStack w\<rparr>)
                (dash_dashbuilderMonacoEditorRef d)
       else dash_redo d =
              Inr ([], case dash_dashbuilderMonacoEditorRef d of
                         None \<Rightarrow> d
                       | Some w \<Rightarrow> d\<lparr>dash_newContentRef := w_buffer w\<rparr>))"
proof -
  have reported:
    "fst (swf_onContentChanged eng c (Some Op_UNDO) s) = [OnStateControlCommandUpdate Cmd_UNDO]"
    "fst (swf_onContentChanged eng c (Some Op_REDO) s) = [OnStateControlCommandUpdate Cmd_REDO]"
    "fst (dash_onContentChanged c (Some Op_UNDO) d) = [OnStateControlCommandUpdate Cmd_UNDO]"
    "fst (dash_onContentChanged c (Some Op_REDO) d) = [OnStateControlCommandUpdate Cmd_REDO]"
    by (simp_all add: swf_onContentChanged_def dash_onContentChanged_def)
  note signalled = swf_undo_emitted [of eng s] swf_redo_emitted [of eng s]
    dash_undo_emitted [of d] dash_redo_emitted [of d]
  note changed = swf_undo_iff [of eng s] swf_redo_iff [of eng s]
    dash_undo_iff [of d] dash_redo_iff [of d]
  note applied = swf_undo_coupled [of s eng] swf_redo_coupled [of s eng]
    dash_undo_coupled [of d] dash_redo_coupled [of d]
  from reported signalled changed applied show ?thesis
    by (intro conjI)
qed

text \<open>
  A run: after one edit of \<open>{}\<close> into \<open>{ }\<close>, \<open>undo()\<close> signals \<open>UNDO\<close> once
  and leaves the widget with the buffer \<open>{}\<close> and an empty undo history; a second
  \<open>undo()\<close>, on that empty history, signals nothing and returns the state unchanged.
\<close>

theorem undo_redo_signal_once_witness:
  "emitted (swf_undo no_preview_engine
      (swf_run no_preview_engine [Swf_SetContent ''a.sw.json'' ''{}'', Swf_UserEdit ''{ }'']
         (swf_mount no_preview_engine))) = [OnStateControlCommandUpdate Cmd_UNDO]
   \<and> map_option w_buffer (swf_swfMonacoEditorRef
        (state_after
           (swf_undo no_preview_engine
              (swf_run no_preview_engine
                 [Swf_SetContent ''a.sw.json'' ''{}'', Swf_UserEdit ''{ }'']
                 (swf_mount no_preview_engine)))
           (swf_run no_preview_engine
              [Swf_SetContent ''a.sw.json'' ''{}'', Swf_UserEdit ''{ }'']
              (swf_mount no_preview_engine)))) = Some ''{}''
   \<and> swf_undo no_preview_engine
        (swf_run no_preview_engine
           [Swf_SetContent ''a.sw.json'' ''{}'', Swf_UserEdit ''{ }'', Swf_Undo]
           (swf_mount no_preview_engine)) =
      Inr ([], swf_run no_preview_engine
                 [Swf_SetContent ''a.sw.json'' ''{}'', Swf_UserEdit ''{ }'', Swf_Undo]
                 (swf_mount no_preview_engine))"
proof -
  let ?s1 = "swf_run no_preview_engine
               [Swf_SetContent ''a.sw.json'' ''{}'', Swf_UserEdit ''{ }'']
               (swf_mount no_preview_engine)"
  let ?s2 = "swf_run no_preview_engine
               [Swf_SetContent ''a.sw.json'' ''{}'', Swf_UserEdit ''{ }'', Swf_Undo]
               (swf_mount no_preview_engine)"
  have r1: "swf_swfMonacoEditorRef ?s1 =
      Some \<lparr>w_buffer = ''{ }'', w_fileName = ''a.sw.json'', w_undoStack = [''{}''],
            w_redoStack = [], w_theme = None\<rparr>"
    by (simp add: swf_mount_eq swf_useState_def bind_err_def swf_setContent_def swf_commit_def
        swf_useEffect_def swf_render_def swf_onContentChanged_def swf_updateDiagram_def
        no_preview_engine_def widget_render_def widget_type_def)
  have r2: "swf_swfMonacoEditorRef ?s2 =
      Some \<lparr>w_buffer = ''{}'', w_fileName = ''a.sw.json'', w_undoStack = [],
            w_redoStack = [''{ }''], w_theme = None\<rparr>"
    by (simp add: swf_mount_eq swf_useState_def bind_err_def swf_setContent_def swf_commit_def
        swf_useEffect_def swf_render_def swf_onContentChanged_def swf_updateDiagram_def
        no_preview_engine_def widget_render_def widget_type_def swf_undo_def widget_undo_def)
  from undo_redo_signal_once [where eng = no_preview_engine and s = ?s1] r1
  have a: "emitted (swf_undo no_preview_engine ?s1) = [OnStateControlCommandUpdate Cmd_UNDO]"
    and b: "map_option w_buffer (swf_swfMonacoEditorRef
              (state_after (swf_undo no_preview_engine ?s1) ?s1)) = Some ''{}''"
    by (simp_all add: widget_canUndo_def)
  from undo_redo_signal_once [where eng = no_preview_engine and s = ?s2] r2
  have c: "swf_undo no_preview_engine ?s2 = Inr ([], ?s2)"
    by (simp add: widget_canUndo_def)
  from a b c show ?thesis by (intro conjI)
qed

text \<open>
  Claim C7. In both editors \<open>undo()\<close>, \<open>redo()\<close>, \<open>validate()\<close> and
  \<open>setTheme(theme)\<close> succeed in every state, mounted widget or not. The claim also
  lets no operation but \<open>setContent\<close> and \<open>getContent\<close> fail the caller; yet on
  the freshly mounted ServerlessWorkflow editor \<open>getPreview()\<close> throws a
  \<open>TypeError\<close>.
\<close>

theorem swf_getPreview_fails_the_caller:
  "\<not> isl (swf_undo eng s) \<and> \<not> isl (swf_redo eng s) \<and> \<not> isl (swf_validate s)
   \<and> \<not> isl (swf_setTheme theme s)
   \<and> \<not> isl (dash_undo d) \<and> \<not> isl (dash_redo d) \<and> \<not> isl (dash_validate d)
   \<and> \<not> isl (dash_setTheme theme d)
   \<and> swf_getPreview (swf_mount no_preview_engine) = Inl TypeError"
  by (simp add: swf_undo_def swf_redo_def swf_validate_def swf_setTheme_def
      dash_undo_def dash_redo_def dash_validate_def dash_setTheme_def
      swf_getPreview_def swf_mount_svg split: option.splits prod.splits)

text \<open>
  Claim C8. \<open>setTheme\<close> is idempotent in both editors: calling \<open>setTheme(theme)\<close>
  again on the state the first call leaves gives the same state as the first call alone.
\<close>

theorem setTheme_idempotent:
  "bind_err (swf_setTheme theme s) (swf_setTheme theme) = swf_setTheme theme s
   \<and> bind_err (dash_setTheme theme d) (dash_setTheme theme) = dash_setTheme theme d"
  by (simp add: bind_err_def swf_setTheme_def dash_setTheme_def widget_setTheme_def
      split: option.splits)

theorem setTheme_idempotent_witness:
  "bind_err (swf_setTheme DARK
       (swf_run no_preview_engine [Swf_SetContent ''a.sw.json'' ''{}'']
          (swf_mount no_preview_engine))) (swf_setTheme DARK) =
     swf_setTheme DARK
       (swf_run no_preview_engine [Swf_SetContent ''a.sw.json'' ''{}'']
          (swf_mount no_preview_engine))
   \<and> bind_err (dash_setTheme DARK (dash_run [Dash_SetContent ''a.dash.yml'' ''x''] dash_mount))
        (dash_setTheme DARK) =
     dash_setTheme DARK (dash_run [Dash_SetContent ''a.dash.yml'' ''x''] dash_mount)"
  by (rule setTheme_idempotent)

text \<open>
  Claim C9. In the Dashbuilder editor \<open>getContent()\<close> resolves to the empty string in
  every state, also when the Monaco widget is mounted, whatever the widget holds: the
  widget's content is read and dropped.
\<close>

theorem dash_getContent_always_empty:
  "dash_getContent d = Inr []
   \<and> dash_getContent (d\<lparr>dash_dashbuilderMonacoEditorRef := Some w\<rparr>) = Inr []"
  by (simp add: dash_getContent_def)

theorem dash_getContent_always_empty_witness:
  "dash_getContent
     (dash_run [Dash_SetContent ''a.dash.yml'' ''x'', Dash_UserEdit ''pages: []''] dash_mount) =
   Inr []
   \<and> map_option w_buffer (dash_dashbuilderMonacoEditorRef
        (dash_run [Dash_SetContent ''a.dash.yml'' ''x'', Dash_UserEdit ''pages: []''] dash_mount)) =
      Some ''pages: []''"
  using dash_getContent_always_empty
    [where d = "dash_run [Dash_SetContent ''a.dash.yml'' ''x'', Dash_UserEdit ''pages: []'']
                  dash_mount"]
  by (simp add: dash_mount_def dash_useState_def bind_err_def dash_setContent_def dash_commit_def
      dash_useEffect_def dash_render_def dash_onContentChanged_def widget_render_def
      widget_type_def)

end
